theory Spec2Isabelle
  imports Complex_Main "HOL-Library.Multiset"
begin

section \<open>The numpy fragment used by \<^verbatim>\<open>testfiles/makefile.py\<close>\<close>

text \<open>
  The script builds a two-dimensional array with \<^verbatim>\<open>np.zeros((512, 512))\<close> and writes
  to it through basic slices. The array is modelled as a list of rows. \<^verbatim>\<open>np.zeros\<close>
  yields \<^verbatim>\<open>float64\<close> cells; the script only ever stores the constants 0, 1, 2, 3 and 4
  there, which \<^verbatim>\<open>float64\<close> represents exactly, so a cell is a \<^typ>\<open>real\<close> and no
  rounding is involved.
\<close>

type_synonym grid = "real list list"

definition zeros :: "nat \<Rightarrow> nat \<Rightarrow> grid" where
  "zeros h w = replicate h (replicate w 0)"

text \<open>
  A Python slice \<^verbatim>\<open>start:stop\<close> (no step), either bound possibly omitted. On an axis
  of length \<open>n\<close> a bound \<open>k\<close> is clamped as \<^verbatim>\<open>slice.indices\<close> does: a negative bound
  counts from the end, and the result is cut to \<open>0..n\<close>.
\<close>

datatype slice = Slice "int option" "int option"

definition slice_bound :: "nat \<Rightarrow> int \<Rightarrow> nat" where
  "slice_bound n k = (if k < 0 then nat (max (k + int n) 0) else min (nat k) n)"

fun slice_start :: "slice \<Rightarrow> nat \<Rightarrow> nat" where
  "slice_start (Slice None _) n = 0"
| "slice_start (Slice (Some k) _) n = slice_bound n k"

fun slice_stop :: "slice \<Rightarrow> nat \<Rightarrow> nat" where
  "slice_stop (Slice _ None) n = n"
| "slice_stop (Slice _ (Some k)) n = slice_bound n k"

definition in_slice :: "slice \<Rightarrow> nat \<Rightarrow> nat \<Rightarrow> bool" where
  "in_slice s n i = (slice_start s n \<le> i \<and> i < slice_stop s n)"

text \<open>
  \<^verbatim>\<open>data[rs, cs] = v\<close> with a scalar \<open>v\<close>: the scalar is broadcast over the selected
  block, every other cell is kept. A slice never raises, whatever its bounds.
\<close>

definition setitem :: "slice \<Rightarrow> slice \<Rightarrow> real \<Rightarrow> grid \<Rightarrow> grid" where
  "setitem rs cs v g =
     map (\<lambda>(i, row).
            if in_slice rs (length g) i
            then map (\<lambda>(j, x). if in_slice cs (length row) j then v else x) (enumerate 0 row)
            else row)
         (enumerate 0 g)"


section \<open>The script\<close>

text \<open>
  \<^verbatim>\<open>raster\<close> is the library under test; the script imports \<^verbatim>\<open>makeTransform\<close> and
  \<^verbatim>\<open>saveToCOG\<close> from it and the module is not part of the sources. It is a parameter
  of the model: a call takes the state \<open>'w\<close> of the outside world (the file system),
  and returns the world it leaves together with either the exception it raised (\<open>Inl\<close>)
  or its result (\<open>Inr\<close>). The transform \<open>'t\<close>, the result \<open>'f\<close> of the writer and the
  exceptions \<open>'e\<close> of the library are opaque to the script. The keyword arguments
  \<^verbatim>\<open>noDataVal\<close> and \<^verbatim>\<open>mode\<close> of \<^verbatim>\<open>saveToCOG\<close> are its fifth and sixth argument.
\<close>

type_synonym bbox = "(string \<times> int) list"

text \<open>The dict literal of line 8, its items in the order they are written.\<close>

definition bbox_literal :: bbox where
  "bbox_literal = [(''latMin'', 0), (''lonMin'', 0), (''latMax'', 10), (''lonMax'', 10)]"

record ('t, 'f, 'e, 'w) raster =
  makeTransform :: "int \<Rightarrow> int \<Rightarrow> bbox \<Rightarrow> 'w \<Rightarrow> ('e + 't) \<times> 'w"
  saveToCOG :: "string \<Rightarrow> grid \<Rightarrow> string \<Rightarrow> 't \<Rightarrow> int \<Rightarrow> string \<Rightarrow> 'w \<Rightarrow> ('e + 'f) \<times> 'w"

text \<open>
  The module's variables. A name is unbound (\<open>None\<close>) until its assignment has run;
  reading an unbound name raises \<^verbatim>\<open>NameError\<close>. An exception is either such an
  error of the script's own, or one that a call into the library raised.
\<close>

record ('t, 'f) env =
  bbox :: "bbox option"
  data :: "grid option"
  transform :: "'t option"
  cogFile :: "'f option"

datatype 'e exn = NameError string | Raised 'e

text \<open>The calls into the library, with their arguments, in the order they are made.\<close>

datatype 't call =
  is_MakeTransform: MakeTransform int int bbox
| is_SaveToCOG: SaveToCOG string grid string 't int string

text \<open>
  The state of a run: the line about to be executed, the variables, the outside
  world and the calls made so far.
\<close>

record ('t, 'f, 'w) state =
  pc :: nat
  vars :: "('t, 'f) env"
  world :: 'w
  calls :: "'t call list"

text \<open>
  One line of \<^verbatim>\<open>makefile.py\<close>. Lines 1 to 7 hold comments, blank lines and the two
  imports (which bind the library's functions, here the parameter \<open>lib\<close>), lines 9, 15,
  16 and 18 are blank. The result is the exception the line raised, if any, and the
  state it leaves.
\<close>

definition step ::
  "('t, 'f, 'e, 'w) raster \<Rightarrow> ('t, 'f, 'w) state \<Rightarrow> 'e exn option \<times> ('t, 'f, 'w) state" where
  "step lib s =
    (let v = vars s; s' = s\<lparr>pc := pc s + 1\<rparr> in
     if pc s = 8 then
       (None, s'\<lparr>vars := v\<lparr>bbox := Some bbox_literal\<rparr>\<rparr>)
     else if pc s = 10 then
       (None, s'\<lparr>vars := v\<lparr>data := Some (zeros 512 512)\<rparr>\<rparr>)
     else if pc s = 11 then
       (case data v of
          None \<Rightarrow> (Some (NameError ''data''), s)
        | Some d \<Rightarrow> (None, s'\<lparr>vars := v\<lparr>data :=
            Some (setitem (Slice None (Some 256)) (Slice None (Some 256)) 1 d)\<rparr>\<rparr>))
     else if pc s = 12 then
       (case data v of
          None \<Rightarrow> (Some (NameError ''data''), s)
        | Some d \<Rightarrow> (None, s'\<lparr>vars := v\<lparr>data :=
            Some (setitem (Slice (Some 256) None) (Slice None (Some 256)) 2 d)\<rparr>\<rparr>))
     else if pc s = 13 then
       (case data v of
          None \<Rightarrow> (Some (NameError ''data''), s)
        | Some d \<Rightarrow> (None, s'\<lparr>vars := v\<lparr>data :=
            Some (setitem (Slice (Some 256) None) (Slice (Some 256) None) 3 d)\<rparr>\<rparr>))
     else if pc s = 14 then
       (case data v of
          None \<Rightarrow> (Some (NameError ''data''), s)
        | Some d \<Rightarrow> (None, s'\<lparr>vars := v\<lparr>data :=
            Some (setitem (Slice None (Some 256)) (Slice (Some 256) None) 4 d)\<rparr>\<rparr>))
     else if pc s = 17 then
       (case bbox v of
          None \<Rightarrow> (Some (NameError ''bbox''), s)
        | Some b \<Rightarrow>
            (case makeTransform lib 512 512 b (world s) of
               (Inl e, w) \<Rightarrow>
                 (Some (Raised e), s\<lparr>world := w, calls := calls s @ [MakeTransform 512 512 b]\<rparr>)
             | (Inr t, w) \<Rightarrow>
                 (None, s'\<lparr>vars := v\<lparr>transform := Some t\<rparr>, world := w,
                            calls := calls s @ [MakeTransform 512 512 b]\<rparr>)))
     else if pc s = 19 then
       (case data v of
          None \<Rightarrow> (Some (NameError ''data''), s)
        | Some d \<Rightarrow>
            (case transform v of
               None \<Rightarrow> (Some (NameError ''transform''), s)
             | Some t \<Rightarrow>
                 (let c = SaveToCOG ''testfile.tiff'' d ''EPSG:4326'' t (- 9999) ''direct'' in
                  case saveToCOG lib ''testfile.tiff'' d ''EPSG:4326'' t (- 9999) ''direct''
                         (world s) of
                    (Inl e, w) \<Rightarrow> (Some (Raised e), s\<lparr>world := w, calls := calls s @ [c]\<rparr>)
                  | (Inr f, w) \<Rightarrow>
                      (None, s'\<lparr>vars := v\<lparr>cogFile := Some f\<rparr>, world := w,
                                 calls := calls s @ [c]\<rparr>))))
     else (None, s'))"

text \<open>A line that does not raise passes control to the line below it.\<close>

lemma step_advances:
  assumes "step lib s = (None, s')"
  shows "pc s' = Suc (pc s)"
  using assms
  by (auto simp: step_def Let_def split: if_splits option.splits prod.splits sum.splits)

text \<open>
  Running the module from the line \<open>pc s\<close> up to, and not including, the line \<open>stop\<close>:
  lines run one after the other until the line \<open>stop\<close> is reached or a line raises,
  which ends the run with that exception. Nothing in the module catches one.
\<close>

function run_until ::
  "nat \<Rightarrow> ('t, 'f, 'e, 'w) raster \<Rightarrow> ('t, 'f, 'w) state \<Rightarrow> 'e exn option \<times> ('t, 'f, 'w) state" where
  "run_until stop lib s =
     (if stop \<le> pc s then (None, s)
      else case step lib s of
             (Some e, s') \<Rightarrow> (Some e, s')
           | (None, s') \<Rightarrow> run_until stop lib s')"
  by pat_completeness auto
termination
proof (relation "measure (\<lambda>(stop, lib, s). stop - pc s)")
  show "wf (measure (\<lambda>(stop, lib, s). stop - pc s))"
    by simp
next
  fix stop :: nat and lib :: "('t, 'f, 'e, 'w) raster" and s s' :: "('t, 'f, 'w) state"
    and r :: "'e exn option"
  assume "\<not> stop \<le> pc s" and "(r, s') = step lib s" and "r = None"
  then have "pc s' = Suc (pc s)"
    using step_advances [of lib s s'] by simp
  with \<open>\<not> stop \<le> pc s\<close>
  show "((stop, lib, s'), (stop, lib, s)) \<in> measure (\<lambda>(stop, lib, s). stop - pc s)"
    by simp
qed

text \<open>
  The whole script: the file has 19 lines, every name is unbound at the start, no call
  has been made.
\<close>

definition init :: "'w \<Rightarrow> ('t, 'f, 'w) state" where
  "init w = \<lparr>pc = 1, vars = \<lparr>bbox = None, data = None, transform = None, cogFile = None\<rparr>,
             world = w, calls = []\<rparr>"

definition script ::
  "('t, 'f, 'e, 'w) raster \<Rightarrow> 'w \<Rightarrow> 'e exn option \<times> ('t, 'f, 'w) state" where
  "script lib w = run_until 20 lib (init w)"

text \<open>
  The four assignments of lines 11 to 14 as data, in the order of the file: the row
  slice, the column slice and the constant stored.
\<close>

definition quadrant_writes :: "(slice \<times> slice \<times> real) list" where
  "quadrant_writes =
     [(Slice None (Some 256), Slice None (Some 256), 1),
      (Slice (Some 256) None, Slice None (Some 256), 2),
      (Slice (Some 256) None, Slice (Some 256) None, 3),
      (Slice None (Some 256), Slice (Some 256) None, 4)]"

definition assign :: "slice \<times> slice \<times> real \<Rightarrow> grid \<Rightarrow> grid" where
  "assign a g = (case a of (rs, cs, v) \<Rightarrow> setitem rs cs v g)"

text \<open>The cells of an \<open>h\<close> by \<open>w\<close> grid that an assignment writes.\<close>

definition written :: "nat \<Rightarrow> nat \<Rightarrow> slice \<times> slice \<times> real \<Rightarrow> (nat \<times> nat) set" where
  "written h w a =
     (case a of (rs, cs, v) \<Rightarrow> {(i, j). in_slice rs h i \<and> in_slice cs w j})"

text \<open>
  A stand-in for the library, to run the script on: it is not the real \<^verbatim>\<open>raster\<close>
  module and tells nothing about it. The world is the list of the paths written so
  far; \<open>bad_bbox\<close> makes \<^verbatim>\<open>makeTransform\<close> raise, \<open>read_only\<close> makes \<^verbatim>\<open>saveToCOG\<close>
  raise.
\<close>

definition demo_raster ::
  "bool \<Rightarrow> bool \<Rightarrow> (int \<times> int \<times> bbox, string, string, string list) raster" where
  "demo_raster bad_bbox read_only =
     \<lparr>makeTransform = (\<lambda>width height b fs.
         if bad_bbox then (Inl ''bad bounding box'', fs) else (Inr (width, height, b), fs)),
      saveToCOG = (\<lambda>path d crs t noDataVal mode fs.
         if read_only then (Inl ''I/O failure'', fs) else (Inr path, fs @ [path]))\<rparr>"

text \<open>
  The orders in which a list of statements can be arranged: \<open>interleave x ys\<close> puts \<open>x\<close>
  at every position of \<open>ys\<close>, \<open>orders xs\<close> lists every rearrangement of \<open>xs\<close>.
\<close>

fun interleave :: "'a \<Rightarrow> 'a list \<Rightarrow> 'a list list" where
  "interleave x [] = [[x]]"
| "interleave x (y # ys) = (x # y # ys) # map ((#) y) (interleave x ys)"

fun orders :: "'a list \<Rightarrow> 'a list list" where
  "orders [] = [[]]"
| "orders (x # xs) = concat (map (interleave x) (orders xs))"


section \<open>Slices and assignments\<close>

lemma length_zeros: "length (zeros h w) = h"
  by (simp add: zeros_def)

lemma nth_zeros: "i < h \<Longrightarrow> zeros h w ! i = replicate w 0"
  by (simp add: zeros_def)

lemma length_setitem: "length (setitem rs cs v g) = length g"
  by (simp add: setitem_def)

lemma length_setitem_row:
  "i < length g \<Longrightarrow> length (setitem rs cs v g ! i) = length (g ! i)"
  by (simp add: setitem_def nth_enumerate_eq)

lemma nth_setitem:
  assumes "i < length g" and "j < length (g ! i)"
  shows "setitem rs cs v g ! i ! j =
           (if in_slice rs (length g) i \<and> in_slice cs (length (g ! i)) j then v
            else g ! i ! j)"
  using assms by (simp add: setitem_def nth_enumerate_eq)

lemma in_slice_upto: "in_slice (Slice None (Some 256)) n i = (i < 256 \<and> i < n)"
  by (auto simp: in_slice_def slice_bound_def)

lemma in_slice_from: "in_slice (Slice (Some 256) None) n i = (256 \<le> i \<and> i < n)"
  by (auto simp: in_slice_def slice_bound_def)

lemma length_assign: "length (assign a g) = length g"
  by (cases a) (simp add: assign_def length_setitem)

lemma length_assign_row: "i < length g \<Longrightarrow> length (assign a g ! i) = length (g ! i)"
  by (cases a) (simp add: assign_def length_setitem_row)

lemma length_fold_assign: "length (fold assign ws g) = length g"
  by (induction ws arbitrary: g) (simp_all add: length_assign)

lemma length_fold_assign_row:
  "i < length g \<Longrightarrow> length (fold assign ws g ! i) = length (g ! i)"
  by (induction ws arbitrary: g) (simp_all add: length_assign length_assign_row)

lemma nth_assign:
  assumes "i < length g" and "j < length (g ! i)"
  shows "assign a g ! i ! j =
           (if (i, j) \<in> written (length g) (length (g ! i)) a then snd (snd a) else g ! i ! j)"
  using assms by (cases a) (simp add: assign_def written_def nth_setitem)

text \<open>Two assignments that write no common cell can be swapped, on any grid.\<close>

lemma assign_commute:
  assumes "\<And>h n. written h n a \<inter> written h n b = {}"
  shows "assign a (assign b g) = assign b (assign a g)"
proof (rule nth_equalityI)
  show "length (assign a (assign b g)) = length (assign b (assign a g))"
    by (simp add: length_assign)
next
  fix i assume "i < length (assign a (assign b g))"
  then have i: "i < length g" by (simp add: length_assign)
  show "assign a (assign b g) ! i = assign b (assign a g) ! i"
  proof (rule nth_equalityI)
    show "length (assign a (assign b g) ! i) = length (assign b (assign a g) ! i)"
      using i by (simp add: length_assign length_assign_row)
  next
    fix j assume "j < length (assign a (assign b g) ! i)"
    then have j: "j < length (g ! i)"
      using i by (simp add: length_assign length_assign_row)
    have "\<not> ((i, j) \<in> written (length g) (length (g ! i)) a
            \<and> (i, j) \<in> written (length g) (length (g ! i)) b)"
      using assms [of "length g" "length (g ! i)"] by blast
    then show "assign a (assign b g) ! i ! j = assign b (assign a g) ! i ! j"
      using i j by (auto simp: nth_assign length_assign length_assign_row)
  qed
qed

lemma quadrants_disjoint:
  assumes "a \<in> set quadrant_writes" and "b \<in> set quadrant_writes" and "a \<noteq> b"
  shows "written h n a \<inter> written h n b = {}"
  using assms by (auto simp: quadrant_writes_def written_def in_slice_upto in_slice_from)

lemma quadrants_commute:
  assumes "a \<in> set quadrant_writes" and "b \<in> set quadrant_writes"
  shows "assign a \<circ> assign b = assign b \<circ> assign a"
proof (cases "a = b")
  case True
  then show ?thesis by simp
next
  case False
  then have "\<And>h n. written h n a \<inter> written h n b = {}"
    using assms quadrants_disjoint by blast
  then show ?thesis
    by (auto simp: fun_eq_iff intro: assign_commute)
qed

lemma fold_any_order:
  assumes "mset ws = mset quadrant_writes"
  shows "fold assign ws g = fold assign quadrant_writes g"
proof -
  have "fold assign quadrant_writes = fold assign ws"
    using quadrants_commute assms by (intro fold_multiset_equiv) simp_all
  then show ?thesis by simp
qed

lemma fold_quadrant_writes:
  "fold assign quadrant_writes g =
     setitem (Slice None (Some 256)) (Slice (Some 256) None) 4
       (setitem (Slice (Some 256) None) (Slice (Some 256) None) 3
         (setitem (Slice (Some 256) None) (Slice None (Some 256)) 2
           (setitem (Slice None (Some 256)) (Slice None (Some 256)) 1 g)))"
  by (simp add: quadrant_writes_def assign_def)

lemma quadrant_cell:
  assumes "i < 512" and "j < 512"
  shows "fold assign quadrant_writes (zeros 512 512) ! i ! j =
           (if i < 256 then if j < 256 then 1 else 4 else if j < 256 then 2 else 3)"
  using assms
  by (simp add: quadrant_writes_def assign_def nth_setitem length_setitem length_setitem_row
      length_zeros nth_zeros in_slice_upto in_slice_from)

lemma quadrant_rows: "length (fold assign quadrant_writes (zeros 512 512)) = 512"
  by (simp add: length_fold_assign length_zeros)

lemma quadrant_columns:
  "i < 512 \<Longrightarrow> length (fold assign quadrant_writes (zeros 512 512) ! i) = 512"
  by (simp add: length_fold_assign_row length_zeros nth_zeros)

lemma quadrant_shape:
  "map length (fold assign quadrant_writes (zeros 512 512)) = replicate 512 512"
  by (rule nth_equalityI) (simp_all add: quadrant_rows quadrant_columns)


lemma zeros_cell: "i < h \<Longrightarrow> j < w \<Longrightarrow> zeros h w ! i ! j = 0"
  by (simp add: zeros_def)

lemma quadrant_row_lengths:
  "set (map length (fold assign quadrant_writes (zeros 512 512))) = {512}"
proof -
  have "set (map length (fold assign quadrant_writes (zeros 512 512)))
          = set (replicate 512 (512::nat))"
    by (simp only: quadrant_shape)
  then show ?thesis by simp
qed


section \<open>Rearrangements\<close>

lemma mset_interleave: "zs \<in> set (interleave x ys) \<Longrightarrow> mset zs = add_mset x (mset ys)"
  by (induction ys arbitrary: zs) auto

lemma interleave_mid: "as @ x # bs \<in> set (interleave x (as @ bs))"
  by (induction as) (auto, cases bs, auto)

lemma mset_orders: "ys \<in> set (orders xs) \<Longrightarrow> mset ys = mset xs"
  by (induction xs arbitrary: ys) (auto dest: mset_interleave)

lemma orders_complete: "mset ys = mset xs \<Longrightarrow> ys \<in> set (orders xs)"
proof (induction xs arbitrary: ys)
  case Nil
  then show ?case by simp
next
  case (Cons x xs)
  then have "x \<in> set ys"
    by (metis list.set_intros(1) set_mset_mset)
  then obtain as bs where ys: "ys = as @ x # bs"
    by (auto dest: split_list)
  with Cons.prems have "mset (as @ bs) = mset xs" by simp
  then have "as @ bs \<in> set (orders xs)" by (rule Cons.IH)
  then show ?case
    using interleave_mid [of as x bs] ys by auto
qed

lemma set_orders: "set (orders xs) = {ys. mset ys = mset xs}"
  using mset_orders orders_complete by blast

lemma orders_quadrant_writes:
  "distinct (orders quadrant_writes) \<and> length (orders quadrant_writes) = 24"
  by (simp add: quadrant_writes_def)

lemma card_orders: "card {ws. mset ws = mset quadrant_writes} = 24"
  using orders_quadrant_writes distinct_card [of "orders quadrant_writes"]
  by (simp add: set_orders)


section \<open>Running the script\<close>

declare run_until.simps [simp del]

lemma run_until_stop: "stop \<le> pc s \<Longrightarrow> run_until stop lib s = (None, s)"
  by (simp add: run_until.simps)

lemma run_until_step:
  "pc s < stop \<Longrightarrow> run_until stop lib s =
     (case step lib s of (Some e, s') \<Rightarrow> (Some e, s') | (None, s') \<Rightarrow> run_until stop lib s')"
  by (subst run_until.simps) simp

lemmas run_simps = init_def run_until_step run_until_stop step_def fold_quadrant_writes

lemma run_until_9:
  "run_until 9 lib (init w) =
     (None, \<lparr>pc = 9,
        vars = \<lparr>bbox = Some bbox_literal, data = None, transform = None, cogFile = None\<rparr>,
        world = w, calls = []\<rparr>)"
  by (simp add: run_simps)

lemma run_until_11:
  "run_until 11 lib (init w) =
     (None, \<lparr>pc = 11,
        vars = \<lparr>bbox = Some bbox_literal, data = Some (zeros 512 512), transform = None,
                cogFile = None\<rparr>,
        world = w, calls = []\<rparr>)"
  by (simp add: run_simps)

lemma run_until_15:
  "run_until 15 lib (init w) =
     (None, \<lparr>pc = 15,
        vars = \<lparr>bbox = Some bbox_literal,
                data = Some (fold assign quadrant_writes (zeros 512 512)),
                transform = None, cogFile = None\<rparr>,
        world = w, calls = []\<rparr>)"
  by (simp add: run_simps)

lemma run_until_17:
  "run_until 17 lib (init w) =
     (None, \<lparr>pc = 17,
        vars = \<lparr>bbox = Some bbox_literal,
                data = Some (fold assign quadrant_writes (zeros 512 512)),
                transform = None, cogFile = None\<rparr>,
        world = w, calls = []\<rparr>)"
  by (simp add: run_simps)

lemma run_until_18:
  assumes "makeTransform lib 512 512 bbox_literal w = (Inr t, w1)"
  shows "run_until 18 lib (init w) =
          (None,
           \<lparr>pc = 18,
            vars = \<lparr>bbox = Some bbox_literal,
                    data = Some (fold assign quadrant_writes (zeros 512 512)),
                    transform = Some t, cogFile = None\<rparr>,
            world = w1, calls = [MakeTransform 512 512 bbox_literal]\<rparr>)"
  using assms by (simp add: run_simps)

lemma run_until_18_raises:
  assumes "makeTransform lib 512 512 bbox_literal w = (Inl e, w1)"
  shows "run_until 18 lib (init w) =
          (Some (Raised e),
           \<lparr>pc = 17,
            vars = \<lparr>bbox = Some bbox_literal,
                    data = Some (fold assign quadrant_writes (zeros 512 512)),
                    transform = None, cogFile = None\<rparr>,
            world = w1, calls = [MakeTransform 512 512 bbox_literal]\<rparr>)"
  using assms by (simp add: run_simps)

text \<open>The three ways the script can end.\<close>

lemma script_makeTransform_raises:
  assumes "makeTransform lib 512 512 bbox_literal w = (Inl e, w1)"
  shows "script lib w =
          (Some (Raised e),
           \<lparr>pc = 17,
            vars = \<lparr>bbox = Some bbox_literal,
                    data = Some (fold assign quadrant_writes (zeros 512 512)),
                    transform = None, cogFile = None\<rparr>,
            world = w1, calls = [MakeTransform 512 512 bbox_literal]\<rparr>)"
  using assms by (simp add: script_def run_simps)

lemma script_saveToCOG_raises:
  assumes "makeTransform lib 512 512 bbox_literal w = (Inr t, w1)"
    and "saveToCOG lib ''testfile.tiff'' (fold assign quadrant_writes (zeros 512 512))
           ''EPSG:4326'' t (- 9999) ''direct'' w1 = (Inl e, w2)"
  shows "script lib w =
          (Some (Raised e),
           \<lparr>pc = 19,
            vars = \<lparr>bbox = Some bbox_literal,
                    data = Some (fold assign quadrant_writes (zeros 512 512)),
                    transform = Some t, cogFile = None\<rparr>,
            world = w2,
            calls = [MakeTransform 512 512 bbox_literal,
                     SaveToCOG ''testfile.tiff'' (fold assign quadrant_writes (zeros 512 512))
                       ''EPSG:4326'' t (- 9999) ''direct'']\<rparr>)"
  using assms by (simp add: script_def run_simps)

lemma script_returns:
  assumes "makeTransform lib 512 512 bbox_literal w = (Inr t, w1)"
    and "saveToCOG lib ''testfile.tiff'' (fold assign quadrant_writes (zeros 512 512))
           ''EPSG:4326'' t (- 9999) ''direct'' w1 = (Inr f, w2)"
  shows "script lib w =
          (None,
           \<lparr>pc = 20,
            vars = \<lparr>bbox = Some bbox_literal,
                    data = Some (fold assign quadrant_writes (zeros 512 512)),
                    transform = Some t, cogFile = Some f\<rparr>,
            world = w2,
            calls = [MakeTransform 512 512 bbox_literal,
                     SaveToCOG ''testfile.tiff'' (fold assign quadrant_writes (zeros 512 512))
                       ''EPSG:4326'' t (- 9999) ''direct'']\<rparr>)"
  using assms by (simp add: script_def run_simps)

lemma script_cases [case_names makeTransform_raises saveToCOG_raises returns]:
  obtains e w1 where "makeTransform lib 512 512 bbox_literal w = (Inl e, w1)"
  | t w1 e w2 where "makeTransform lib 512 512 bbox_literal w = (Inr t, w1)"
      and "saveToCOG lib ''testfile.tiff'' (fold assign quadrant_writes (zeros 512 512))
             ''EPSG:4326'' t (- 9999) ''direct'' w1 = (Inl e, w2)"
  | t w1 f w2 where "makeTransform lib 512 512 bbox_literal w = (Inr t, w1)"
      and "saveToCOG lib ''testfile.tiff'' (fold assign quadrant_writes (zeros 512 512))
             ''EPSG:4326'' t (- 9999) ''direct'' w1 = (Inr f, w2)"
proof (cases "makeTransform lib 512 512 bbox_literal w")
  case (Pair r w1)
  show ?thesis
  proof (cases r)
    case (Inl e)
    with Pair that(1) show ?thesis by simp
  next
    case (Inr t)
    show ?thesis
    proof (cases "saveToCOG lib ''testfile.tiff'' (fold assign quadrant_writes (zeros 512 512))
             ''EPSG:4326'' t (- 9999) ''direct'' w1")
      case (Pair r2 w2)
      with \<open>makeTransform lib 512 512 bbox_literal w = (r, w1)\<close> Inr that(2,3)
      show ?thesis by (cases r2) simp_all
    qed
  qed
qed

lemma script_vars:
  "bbox (vars (snd (script lib w))) = Some bbox_literal
    \<and> data (vars (snd (script lib w))) = Some (fold assign quadrant_writes (zeros 512 512))"
  by (cases lib w rule: script_cases)
    (simp_all add: script_makeTransform_raises script_saveToCOG_raises script_returns)

lemma script_first_call:
  "filter is_MakeTransform (calls (snd (script lib w))) = [MakeTransform 512 512 bbox_literal]"
  by (cases lib w rule: script_cases)
    (simp_all add: script_makeTransform_raises script_saveToCOG_raises script_returns)

lemma script_save_calls:
  assumes "SaveToCOG path g crs t noDataVal mode \<in> set (calls (snd (script lib w)))"
  shows "g = fold assign quadrant_writes (zeros 512 512) \<and> noDataVal = - 9999"
  using assms
  by (cases lib w rule: script_cases)
    (auto simp: script_makeTransform_raises script_saveToCOG_raises script_returns)

lemma script_no_NameError: "fst (script lib w) \<noteq> Some (NameError x)"
  by (cases lib w rule: script_cases)
    (simp_all add: script_makeTransform_raises script_saveToCOG_raises script_returns)

text \<open>The stand-in library, evaluated.\<close>

lemma demo_makeTransform:
  "makeTransform (demo_raster False r) width height b fs = (Inr (width, height, b), fs)"
  "makeTransform (demo_raster True r) width height b fs = (Inl ''bad bounding box'', fs)"
  by (simp_all add: demo_raster_def)

lemma demo_saveToCOG:
  "saveToCOG (demo_raster b False) path d crs t n m fs = (Inr path, fs @ [path])"
  "saveToCOG (demo_raster b True) path d crs t n m fs = (Inl ''I/O failure'', fs)"
  by (simp_all add: demo_raster_def)


section \<open>The claims\<close>

text \<open>
  C1. After the four slice assignments of lines 11 to 14 the grid has 512 rows of 512
  cells and is divided into four 256 by 256 quadrants, each holding one constant: the
  cell in row \<open>i\<close> and column \<open>j\<close> holds 1 if \<open>i < 256\<close> and \<open>j < 256\<close>, 2 if \<open>i \<ge> 256\<close>
  and \<open>j < 256\<close>, 3 if \<open>i \<ge> 256\<close> and \<open>j \<ge> 256\<close>, and 4 if \<open>i < 256\<close> and \<open>j \<ge> 256\<close>.
  Lines 1 to 14 make no call into the library, so this holds whatever the library does.
\<close>

theorem quadrants_after_assignments:
  assumes "i < 512" and "j < 512"
  shows "\<exists>g. fst (run_until 15 lib (init w)) = None
           \<and> data (vars (snd (run_until 15 lib (init w)))) = Some g
           \<and> length g = 512 \<and> length (g ! i) = 512
           \<and> (i < 256 \<and> j < 256 \<longrightarrow> g ! i ! j = 1)
           \<and> (256 \<le> i \<and> j < 256 \<longrightarrow> g ! i ! j = 2)
           \<and> (256 \<le> i \<and> 256 \<le> j \<longrightarrow> g ! i ! j = 3)
           \<and> (i < 256 \<and> 256 \<le> j \<longrightarrow> g ! i ! j = 4)"
  using assms by (simp add: run_until_15 quadrant_rows quadrant_columns quadrant_cell)

theorem quadrants_after_assignments_witness:
  "\<exists>g. data (vars (snd (run_until 15 (demo_raster False False) (init [])))) = Some g
     \<and> g ! 0 ! 0 = 1 \<and> g ! 511 ! 0 = 2 \<and> g ! 511 ! 511 = 3 \<and> g ! 0 ! 511 = 4"
  using quadrants_after_assignments [of 0 0 "demo_raster False False" "[]"]
    quadrants_after_assignments [of 511 0 "demo_raster False False" "[]"]
    quadrants_after_assignments [of 511 511 "demo_raster False False" "[]"]
    quadrants_after_assignments [of 0 511 "demo_raster False False" "[]"]
  by auto

text \<open>
  C2. The script calls \<^verbatim>\<open>saveToCOG\<close> exactly once, with the path \<^verbatim>\<open>"testfile.tiff"\<close>, the
  grid that \<^verbatim>\<open>data\<close> holds after the four assignments, the CRS \<^verbatim>\<open>"EPSG:4326"\<close>, the
  transform \<open>t\<close> that the call of \<^verbatim>\<open>makeTransform\<close> returned, the no-data value -9999 and
  the mode \<^verbatim>\<open>"direct"\<close>. The call is the library's function applied to these arguments
  in the world that \<^verbatim>\<open>makeTransform\<close> left: the script ends in the world this
  application leaves, with the exception it raises if it raises one, and with its
  result bound to \<^verbatim>\<open>cogFile\<close> if it returns. The hypothesis is the one the claim makes:
  that the call of \<^verbatim>\<open>makeTransform\<close> returned a transform.
\<close>

theorem saveToCOG_called_once:
  assumes "makeTransform lib 512 512 bbox_literal w = (Inr t, w1)"
  shows "\<exists>g. data (vars (snd (run_until 15 lib (init w)))) = Some g
           \<and> filter is_SaveToCOG (calls (snd (script lib w))) =
               [SaveToCOG ''testfile.tiff'' g ''EPSG:4326'' t (- 9999) ''direct'']
           \<and> world (snd (script lib w)) =
               snd (saveToCOG lib ''testfile.tiff'' g ''EPSG:4326'' t (- 9999) ''direct'' w1)
           \<and> fst (script lib w) =
               (case fst (saveToCOG lib ''testfile.tiff'' g ''EPSG:4326'' t (- 9999) ''direct'' w1)
                of Inl e \<Rightarrow> Some (Raised e) | Inr f \<Rightarrow> None)
           \<and> cogFile (vars (snd (script lib w))) =
               (case fst (saveToCOG lib ''testfile.tiff'' g ''EPSG:4326'' t (- 9999) ''direct'' w1)
                of Inl e \<Rightarrow> None | Inr f \<Rightarrow> Some f)"
proof (cases "saveToCOG lib ''testfile.tiff'' (fold assign quadrant_writes (zeros 512 512))
                ''EPSG:4326'' t (- 9999) ''direct'' w1")
  case (Pair r w2)
  with assms show ?thesis
    by (cases r) (simp_all add: run_until_15 script_saveToCOG_raises script_returns)
qed

theorem saveToCOG_called_once_witness:
  "makeTransform (demo_raster False False) 512 512 bbox_literal []
     = (Inr (512, 512, bbox_literal), [])
   \<and> (\<exists>g. data (vars (snd (run_until 15 (demo_raster False False) (init [])))) = Some g
         \<and> filter is_SaveToCOG (calls (snd (script (demo_raster False False) []))) =
             [SaveToCOG ''testfile.tiff'' g ''EPSG:4326'' (512, 512, bbox_literal) (- 9999)
                ''direct''])
   \<and> world (snd (script (demo_raster False False) [])) = [''testfile.tiff'']
   \<and> fst (script (demo_raster False False) []) = None
   \<and> cogFile (vars (snd (script (demo_raster False False) []))) = Some ''testfile.tiff''"
  using saveToCOG_called_once
    [of "demo_raster False False" "[]" "(512, 512, bbox_literal)" "[]"]
  by (auto simp: demo_makeTransform demo_saveToCOG)

text \<open>
  C3. The script calls \<^verbatim>\<open>makeTransform\<close> once, whatever the library does, with width 512
  and height 512, which are the number of columns and of rows of the grid it built, and
  with the bounding box bound to \<^verbatim>\<open>bbox\<close> as third argument. The call is the library's
  function applied to these arguments in the world the script started in: after line
  17 the world is the one this application leaves; if it raises, the run ends there
  with that exception and \<^verbatim>\<open>transform\<close> stays unbound; if it returns, its result is
  bound to \<^verbatim>\<open>transform\<close>, and still is when the script ends.
\<close>

theorem makeTransform_called_with_grid_dimensions:
  "\<exists>g b. data (vars (snd (run_until 17 lib (init w)))) = Some g
         \<and> bbox (vars (snd (run_until 17 lib (init w)))) = Some b
         \<and> set (map length g) = {512} \<and> length g = 512
         \<and> filter is_MakeTransform (calls (snd (script lib w))) = [MakeTransform 512 512 b]
         \<and> calls (snd (run_until 18 lib (init w))) = [MakeTransform 512 512 b]
         \<and> world (snd (run_until 18 lib (init w))) = snd (makeTransform lib 512 512 b w)
         \<and> fst (run_until 18 lib (init w)) =
             (case fst (makeTransform lib 512 512 b w)
              of Inl e \<Rightarrow> Some (Raised e) | Inr t \<Rightarrow> None)
         \<and> transform (vars (snd (run_until 18 lib (init w)))) =
             (case fst (makeTransform lib 512 512 b w)
              of Inl e \<Rightarrow> None | Inr t \<Rightarrow> Some t)
         \<and> (case fst (makeTransform lib 512 512 b w)
              of Inl e \<Rightarrow> script lib w = run_until 18 lib (init w)
               | Inr t \<Rightarrow> transform (vars (snd (script lib w))) = Some t)"
proof (cases "makeTransform lib 512 512 bbox_literal w")
  case (Pair r w1)
  show ?thesis
  proof (cases r)
    case (Inl e)
    with Pair have mt: "makeTransform lib 512 512 bbox_literal w = (Inl e, w1)" by simp
    show ?thesis
      by (simp add: run_until_17 quadrant_row_lengths quadrant_rows script_first_call
          run_until_18_raises [OF mt] script_makeTransform_raises [OF mt] mt del: set_map)
  next
    case (Inr t)
    with Pair have mt: "makeTransform lib 512 512 bbox_literal w = (Inr t, w1)" by simp
    have tr: "transform (vars (snd (script lib w))) = Some t"
    proof (cases "saveToCOG lib ''testfile.tiff'' (fold assign quadrant_writes (zeros 512 512))
                ''EPSG:4326'' t (- 9999) ''direct'' w1")
      case (Pair r2 w2)
      with mt show ?thesis
        by (cases r2) (simp_all add: script_saveToCOG_raises script_returns)
    qed
    show ?thesis
      by (simp add: run_until_17 quadrant_row_lengths quadrant_rows script_first_call
          run_until_18 [OF mt] mt tr del: set_map)
  qed
qed

theorem makeTransform_called_with_grid_dimensions_witness:
  "filter is_MakeTransform (calls (snd (script (demo_raster False False) [])))
     = [MakeTransform 512 512 bbox_literal]
   \<and> transform (vars (snd (run_until 18 (demo_raster False False) (init []))))
     = Some (512, 512, bbox_literal)
   \<and> fst (run_until 18 (demo_raster True False) (init [])) = Some (Raised ''bad bounding box'')
   \<and> transform (vars (snd (run_until 18 (demo_raster True False) (init [])))) = None"
  using makeTransform_called_with_grid_dimensions [of "demo_raster False False" "[]"]
    makeTransform_called_with_grid_dimensions [of "demo_raster True False" "[]"]
  by (simp add: run_until_17 demo_makeTransform)

text \<open>
  C4, as amended. The grid is all zeros when it is built on line 10, and no zero is
  left after the four assignments: they overwrite every cell of the grid.
\<close>

theorem quadrants_cover_grid:
  assumes "i < 512" and "j < 512"
  shows "\<exists>g0 g. data (vars (snd (run_until 11 lib (init w)))) = Some g0 \<and> g0 ! i ! j = 0
           \<and> data (vars (snd (run_until 15 lib (init w)))) = Some g \<and> g ! i ! j \<noteq> 0"
  using assms by (simp add: run_until_11 run_until_15 quadrant_cell zeros_cell)

theorem quadrants_cover_grid_witness:
  "\<exists>g0 g. data (vars (snd (run_until 11 (demo_raster False False) (init [])))) = Some g0
     \<and> g0 ! 7 ! 300 = 0
     \<and> data (vars (snd (run_until 15 (demo_raster False False) (init [])))) = Some g
     \<and> g ! 7 ! 300 \<noteq> 0"
  using quadrants_cover_grid [of 7 300 "demo_raster False False" "[]"] by simp

text \<open>
  C4, as the claim states it, fails: after the four assignments no cell of the 512 by
  512 grid holds 0.
\<close>

theorem zero_background_counterexample:
  "\<not> (\<exists>g i j. data (vars (snd (run_until 15 (demo_raster False False) (init [])))) = Some g
         \<and> i < 512 \<and> j < 512 \<and> g ! i ! j = 0)"
  by (auto simp: run_until_15 quadrant_cell)

text \<open>
  C5. The script neither validates nor recovers. Whatever the library does: when the
  call of \<^verbatim>\<open>makeTransform\<close> raises \<open>e\<close>, the script ends with that same \<open>e\<close>, in the
  world the call left, and \<^verbatim>\<open>saveToCOG\<close> is not called; when \<^verbatim>\<open>makeTransform\<close> returns
  and the call of \<^verbatim>\<open>saveToCOG\<close> raises \<open>e\<close>, the script ends with that same \<open>e\<close>, in
  the world that call left; when both return, the script ends without an exception.
  The script never raises an exception of its own: no run ends with a \<^verbatim>\<open>NameError\<close>.
\<close>

theorem library_errors_propagate:
  "(\<forall>e w1. makeTransform lib 512 512 bbox_literal w = (Inl e, w1) \<longrightarrow>
       fst (script lib w) = Some (Raised e) \<and> world (snd (script lib w)) = w1
       \<and> calls (snd (script lib w)) = [MakeTransform 512 512 bbox_literal])
   \<and> (\<forall>t w1 e w2 g.
         makeTransform lib 512 512 bbox_literal w = (Inr t, w1)
         \<and> data (vars (snd (run_until 15 lib (init w)))) = Some g
         \<and> saveToCOG lib ''testfile.tiff'' g ''EPSG:4326'' t (- 9999) ''direct'' w1 = (Inl e, w2)
         \<longrightarrow> fst (script lib w) = Some (Raised e) \<and> world (snd (script lib w)) = w2)
   \<and> (\<forall>t w1 f w2 g.
         makeTransform lib 512 512 bbox_literal w = (Inr t, w1)
         \<and> data (vars (snd (run_until 15 lib (init w)))) = Some g
         \<and> saveToCOG lib ''testfile.tiff'' g ''EPSG:4326'' t (- 9999) ''direct'' w1 = (Inr f, w2)
         \<longrightarrow> fst (script lib w) = None \<and> world (snd (script lib w)) = w2)
   \<and> (\<forall>x. fst (script lib w) \<noteq> Some (NameError x))"
proof (intro conjI allI impI)
  fix e w1 assume "makeTransform lib 512 512 bbox_literal w = (Inl e, w1)"
  then show "fst (script lib w) = Some (Raised e)"
    and "world (snd (script lib w)) = w1"
    and "calls (snd (script lib w)) = [MakeTransform 512 512 bbox_literal]"
    by (simp_all add: script_makeTransform_raises [of lib w e w1])
next
  fix t w1 e w2 g
  assume a: "makeTransform lib 512 512 bbox_literal w = (Inr t, w1)
      \<and> data (vars (snd (run_until 15 lib (init w)))) = Some g
      \<and> saveToCOG lib ''testfile.tiff'' g ''EPSG:4326'' t (- 9999) ''direct'' w1 = (Inl e, w2)"
  then have g: "g = fold assign quadrant_writes (zeros 512 512)"
    by (simp add: run_until_15)
  show "fst (script lib w) = Some (Raised e)" and "world (snd (script lib w)) = w2"
    using a script_saveToCOG_raises [of lib w t w1 e w2] unfolding g by simp_all
next
  fix t w1 f w2 g
  assume a: "makeTransform lib 512 512 bbox_literal w = (Inr t, w1)
      \<and> data (vars (snd (run_until 15 lib (init w)))) = Some g
      \<and> saveToCOG lib ''testfile.tiff'' g ''EPSG:4326'' t (- 9999) ''direct'' w1 = (Inr f, w2)"
  then have g: "g = fold assign quadrant_writes (zeros 512 512)"
    by (simp add: run_until_15)
  show "fst (script lib w) = None" and "world (snd (script lib w)) = w2"
    using a script_returns [of lib w t w1 f w2] unfolding g by simp_all
next
  fix x show "fst (script lib w) \<noteq> Some (NameError x)"
    by (rule script_no_NameError)
qed

theorem library_errors_propagate_witness:
  "fst (script (demo_raster True False) []) = Some (Raised ''bad bounding box'')
   \<and> fst (script (demo_raster False True) []) = Some (Raised ''I/O failure'')
   \<and> fst (script (demo_raster False False) []) = None
   \<and> world (snd (script (demo_raster False False) [])) = [''testfile.tiff'']"
  using library_errors_propagate [of "demo_raster True False" "[]"]
    library_errors_propagate [of "demo_raster False True" "[]"]
    library_errors_propagate [of "demo_raster False False" "[]"]
  by (simp add: demo_makeTransform demo_saveToCOG run_until_15)

text \<open>
  C6. The bounding box that line 8 binds to \<^verbatim>\<open>bbox\<close>, and that \<^verbatim>\<open>bbox\<close> still holds when
  the script ends, has exactly the four keys \<^verbatim>\<open>latMin\<close>, \<^verbatim>\<open>lonMin\<close>, \<^verbatim>\<open>latMax\<close> and
  \<^verbatim>\<open>lonMax\<close>, with the values 0, 0, 10 and 10.
\<close>

theorem bbox_fields:
  "\<exists>b. bbox (vars (snd (run_until 9 lib (init w)))) = Some b
       \<and> bbox (vars (snd (script lib w))) = Some b
       \<and> map fst b = [''latMin'', ''lonMin'', ''latMax'', ''lonMax'']
       \<and> dom (map_of b) = {''latMin'', ''lonMin'', ''latMax'', ''lonMax''}
       \<and> map_of b ''latMin'' = Some 0 \<and> map_of b ''lonMin'' = Some 0
       \<and> map_of b ''latMax'' = Some 10 \<and> map_of b ''lonMax'' = Some 10"
proof -
  have "dom (map_of bbox_literal) = {''latMin'', ''lonMin'', ''latMax'', ''lonMax''}"
    by (auto simp: bbox_literal_def dom_def)
  then show ?thesis
    by (simp add: run_until_9 script_vars) (simp add: bbox_literal_def)
qed

theorem bbox_fields_witness:
  "\<exists>b. bbox (vars (snd (script (demo_raster False False) []))) = Some b
       \<and> map_of b ''latMax'' = Some 10"
  using bbox_fields [of "demo_raster False False" "[]"] by auto

text \<open>
  C7. The script is one linear sequence of statements. Control never branches, jumps
  back or repeats: a line that does not raise passes control to the line below it,
  whatever the state. With a library whose two calls return, the run passes through
  these states in this order: the bounding box is built (line 8) while nothing else is
  bound; the grid is built, all zeros, 512 by 512 (line 10); the four quadrants are
  written, one line each (lines 11 to 14); the transform is computed by
  \<^verbatim>\<open>makeTransform\<close> from 512, 512 and the bounding box (line 17), which is the first call
  into the library; and at last \<^verbatim>\<open>saveToCOG\<close> is called (line 19), after which the run
  is over.
\<close>

theorem script_is_linear:
  assumes "makeTransform lib 512 512 bbox_literal w = (Inr t, w1)"
    and "saveToCOG lib ''testfile.tiff'' (fold assign quadrant_writes (zeros 512 512))
           ''EPSG:4326'' t (- 9999) ''direct'' w1 = (Inr f, w2)"
  shows "(\<forall>s s'. step lib s = (None, s') \<longrightarrow> pc s' = pc s + 1)
    \<and> run_until 8 lib (init w) =
        (None, \<lparr>pc = 8,
           vars = \<lparr>bbox = None, data = None, transform = None, cogFile = None\<rparr>,
           world = w, calls = []\<rparr>)
    \<and> run_until 9 lib (init w) =
        (None, \<lparr>pc = 9,
           vars = \<lparr>bbox = Some bbox_literal, data = None, transform = None, cogFile = None\<rparr>,
           world = w, calls = []\<rparr>)
    \<and> run_until 11 lib (init w) =
        (None, \<lparr>pc = 11,
           vars = \<lparr>bbox = Some bbox_literal, data = Some (zeros 512 512), transform = None,
                   cogFile = None\<rparr>,
           world = w, calls = []\<rparr>)
    \<and> (\<forall>k \<le> 4. run_until (11 + k) lib (init w) =
        (None, \<lparr>pc = 11 + k,
           vars = \<lparr>bbox = Some bbox_literal,
                   data = Some (fold assign (take k quadrant_writes) (zeros 512 512)),
                   transform = None, cogFile = None\<rparr>,
           world = w, calls = []\<rparr>))
    \<and> run_until 18 lib (init w) =
        (None, \<lparr>pc = 18,
           vars = \<lparr>bbox = Some bbox_literal,
                   data = Some (fold assign quadrant_writes (zeros 512 512)),
                   transform = Some t, cogFile = None\<rparr>,
           world = w1, calls = [MakeTransform 512 512 bbox_literal]\<rparr>)
    \<and> run_until 20 lib (init w) =
        (None, \<lparr>pc = 20,
           vars = \<lparr>bbox = Some bbox_literal,
                   data = Some (fold assign quadrant_writes (zeros 512 512)),
                   transform = Some t, cogFile = Some f\<rparr>,
           world = w2,
           calls = [MakeTransform 512 512 bbox_literal,
                    SaveToCOG ''testfile.tiff'' (fold assign quadrant_writes (zeros 512 512))
                      ''EPSG:4326'' t (- 9999) ''direct'']\<rparr>)
    \<and> script lib w = run_until 20 lib (init w)"
proof (intro conjI)
  show "\<forall>s s'. step lib s = (None, s') \<longrightarrow> pc s' = pc s + 1"
    by (simp add: step_advances)
  show "run_until 8 lib (init w) =
        (None, \<lparr>pc = 8,
           vars = \<lparr>bbox = None, data = None, transform = None, cogFile = None\<rparr>,
           world = w, calls = []\<rparr>)"
    by (simp add: run_simps)
  show "\<forall>k \<le> 4. run_until (11 + k) lib (init w) =
        (None, \<lparr>pc = 11 + k,
           vars = \<lparr>bbox = Some bbox_literal,
                   data = Some (fold assign (take k quadrant_writes) (zeros 512 512)),
                   transform = None, cogFile = None\<rparr>,
           world = w, calls = []\<rparr>)"
  proof (intro allI impI)
    fix k :: nat assume "k \<le> 4"
    then consider "k = 0" | "k = 1" | "k = 2" | "k = 3" | "k = 4"
      by linarith
    then show "run_until (11 + k) lib (init w) =
        (None, \<lparr>pc = 11 + k,
           vars = \<lparr>bbox = Some bbox_literal,
                   data = Some (fold assign (take k quadrant_writes) (zeros 512 512)),
                   transform = None, cogFile = None\<rparr>,
           world = w, calls = []\<rparr>)"
      by cases (simp_all add: run_simps quadrant_writes_def assign_def)
  qed
  show "script lib w = run_until 20 lib (init w)"
    by (simp add: script_def)
  show "run_until 20 lib (init w) =
        (None, \<lparr>pc = 20,
           vars = \<lparr>bbox = Some bbox_literal,
                   data = Some (fold assign quadrant_writes (zeros 512 512)),
                   transform = Some t, cogFile = Some f\<rparr>,
           world = w2,
           calls = [MakeTransform 512 512 bbox_literal,
                    SaveToCOG ''testfile.tiff'' (fold assign quadrant_writes (zeros 512 512))
                      ''EPSG:4326'' t (- 9999) ''direct'']\<rparr>)"
    using script_returns [OF assms] by (simp add: script_def)
qed (simp_all add: run_until_9 run_until_11 run_until_18 [OF assms(1)])

theorem script_is_linear_witness:
  "makeTransform (demo_raster False False) 512 512 bbox_literal []
     = (Inr (512, 512, bbox_literal), [])
   \<and> saveToCOG (demo_raster False False) ''testfile.tiff''
        (fold assign quadrant_writes (zeros 512 512)) ''EPSG:4326'' (512, 512, bbox_literal)
        (- 9999) ''direct'' [] = (Inr ''testfile.tiff'', [''testfile.tiff''])
   \<and> pc (snd (step (demo_raster False False) (init []))) = 2
   \<and> pc (snd (run_until 13 (demo_raster False False) (init []))) = 13
   \<and> data (vars (snd (run_until 13 (demo_raster False False) (init [])))) =
        Some (fold assign (take 2 quadrant_writes) (zeros 512 512))
   \<and> calls (snd (run_until 18 (demo_raster False False) (init []))) =
        [MakeTransform 512 512 bbox_literal]
   \<and> cogFile (vars (snd (script (demo_raster False False) []))) = Some ''testfile.tiff''"
proof -
  have mt: "makeTransform (demo_raster False False) 512 512 bbox_literal []
     = (Inr (512, 512, bbox_literal), [])"
    by (simp add: demo_makeTransform)
  have sv: "saveToCOG (demo_raster False False) ''testfile.tiff''
        (fold assign quadrant_writes (zeros 512 512)) ''EPSG:4326'' (512, 512, bbox_literal)
        (- 9999) ''direct'' [] = (Inr ''testfile.tiff'', [''testfile.tiff''])"
    by (simp add: demo_saveToCOG)
  have st: "step (demo_raster False False) (init []) =
      (None, snd (step (demo_raster False False) (init [])))"
    by (simp add: step_def init_def)
  note lin = script_is_linear [OF mt sv]
  note advance = lin [THEN conjunct1, rule_format, OF st]
  note third = lin [THEN conjunct2, THEN conjunct2, THEN conjunct2, THEN conjunct2,
      THEN conjunct1, rule_format, of 2]
  show ?thesis
    using mt sv advance third lin by (simp add: init_def)
qed

text \<open>
  C9. The no-data value never collides with the data: whenever the script calls
  \<^verbatim>\<open>saveToCOG\<close>, the grid it passes has 512 rows of 512 cells, every cell of it holds
  1, 2, 3 or 4, the no-data argument is -9999, and so no cell equals the no-data
  argument.
\<close>

theorem noDataVal_not_in_grid:
  assumes "SaveToCOG path g crs t noDataVal mode \<in> set (calls (snd (script lib w)))"
    and "i < length g" and "j < length (g ! i)"
  shows "length g = 512 \<and> length (g ! i) = 512 \<and> g ! i ! j \<in> {1, 2, 3, 4}
           \<and> noDataVal = - 9999 \<and> g ! i ! j \<noteq> of_int noDataVal"
proof -
  note sc = script_save_calls [OF assms(1)]
  note g = sc [THEN conjunct1] and n = sc [THEN conjunct2]
  from assms(2) have i: "i < 512"
    by (simp add: g quadrant_rows)
  with assms(3) have j: "j < 512"
    by (simp add: g quadrant_columns)
  from i j show ?thesis
    unfolding g n by (simp add: quadrant_rows quadrant_columns quadrant_cell)
qed

theorem noDataVal_not_in_grid_witness:
  "SaveToCOG ''testfile.tiff'' (fold assign quadrant_writes (zeros 512 512)) ''EPSG:4326''
       (512, 512, bbox_literal) (- 9999) ''direct''
     \<in> set (calls (snd (script (demo_raster False False) [])))
   \<and> 3 < length (fold assign quadrant_writes (zeros 512 512))
   \<and> 400 < length (fold assign quadrant_writes (zeros 512 512) ! 3)
   \<and> fold assign quadrant_writes (zeros 512 512) ! 3 ! 400 \<in> {1, 2, 3, 4}
   \<and> fold assign quadrant_writes (zeros 512 512) ! 3 ! 400 \<noteq> - 9999"
proof -
  have c: "SaveToCOG ''testfile.tiff'' (fold assign quadrant_writes (zeros 512 512))
       ''EPSG:4326'' (512, 512, bbox_literal) (- 9999) ''direct''
     \<in> set (calls (snd (script (demo_raster False False) [])))"
    by (simp add: script_returns [of "demo_raster False False" "[]" "(512, 512, bbox_literal)"
          "[]" "''testfile.tiff''" "[''testfile.tiff'']"] demo_makeTransform demo_saveToCOG)
  have i: "3 < length (fold assign quadrant_writes (zeros 512 512))"
    by (simp add: quadrant_rows)
  have j: "400 < length (fold assign quadrant_writes (zeros 512 512) ! 3)"
    by (simp add: quadrant_columns)
  show ?thesis
    using c i j noDataVal_not_in_grid [OF c i j] by simp
qed

text \<open>
  C10. The four assignments of lines 11 to 14 write pairwise disjoint sets of cells,
  so the order of the four statements does not matter: there are 24 ways to order
  them, and applying them to the all-zero grid in any of these orders gives the grid
  that \<^verbatim>\<open>data\<close> holds after line 14 of the script.
\<close>

theorem quadrant_writes_any_order:
  assumes "mset ws = mset quadrant_writes"
  shows "(\<forall>a \<in> set quadrant_writes. \<forall>b \<in> set quadrant_writes.
            a \<noteq> b \<longrightarrow> written 512 512 a \<inter> written 512 512 b = {})
    \<and> card {ws'. mset ws' = mset quadrant_writes} = 24
    \<and> data (vars (snd (run_until 15 lib (init w)))) = Some (fold assign ws (zeros 512 512))"
proof (intro conjI ballI impI)
  fix a b
  assume "a \<in> set quadrant_writes" and "b \<in> set quadrant_writes" and "a \<noteq> b"
  then show "written 512 512 a \<inter> written 512 512 b = {}"
    by (rule quadrants_disjoint)
next
  show "card {ws'. mset ws' = mset quadrant_writes} = 24"
    by (rule card_orders)
next
  have "fold assign ws (zeros 512 512) = fold assign quadrant_writes (zeros 512 512)"
    using assms by (rule fold_any_order)
  then show "data (vars (snd (run_until 15 lib (init w))))
               = Some (fold assign ws (zeros 512 512))"
    by (simp add: run_until_15)
qed

theorem quadrant_writes_any_order_witness:
  "mset [(Slice (Some 256) None, Slice (Some 256) None, 3),
         (Slice None (Some 256), Slice None (Some 256), 1),
         (Slice None (Some 256), Slice (Some 256) None, 4),
         (Slice (Some 256) None, Slice None (Some 256), 2)] = mset quadrant_writes
   \<and> data (vars (snd (run_until 15 (demo_raster False False) (init [])))) =
       Some (setitem (Slice (Some 256) None) (Slice None (Some 256)) 2
              (setitem (Slice None (Some 256)) (Slice (Some 256) None) 4
                (setitem (Slice None (Some 256)) (Slice None (Some 256)) 1
                  (setitem (Slice (Some 256) None) (Slice (Some 256) None) 3
                    (zeros 512 512)))))"
proof -
  have m: "mset [(Slice (Some 256) None, Slice (Some 256) None, 3),
         (Slice None (Some 256), Slice None (Some 256), 1),
         (Slice None (Some 256), Slice (Some 256) None, 4),
         (Slice (Some 256) None, Slice None (Some 256), 2 :: real)] = mset quadrant_writes"
    by (simp add: quadrant_writes_def)
  show ?thesis
    using m quadrant_writes_any_order [OF m, of "demo_raster False False" "[]"]
    by (simp add: assign_def)
qed

end
